theory Spec2Isabelle
  imports Main
begin

section \<open>The useDuckDB hook (src/web/src/hooks/useDuckDB.ts)\<close>

text \<open>
  The hook loads the DuckDB engine into a worker, registers one remote parquet file and
  hands out \<open>executeQuery\<close>. Everything it calls (the duckdb-wasm library, the
  browser's Worker and URL objects, the console) is outside the repository: those calls
  are parameters of the model, and every call the hook makes is appended to a trace
  together with the way it settled.
\<close>

subsection \<open>JavaScript values that can be thrown\<close>

text \<open>
  A \<open>throw\<close> can carry any value. \<open>JsErrorObj m\<close> is an \<open>Error\<close> with
  message \<open>m\<close> and \<open>JsTypeError m\<close> a \<open>TypeError\<close> with message \<open>m\<close>;
  both are instances of \<open>Error\<close>. The others are not: a string, \<open>undefined\<close>,
  \<open>null\<close>, a plain object \<open>{}\<close>, and an object without prototype
  (\<open>Object.create(null)\<close>).
\<close>

datatype js_value =
    JsErrorObj string
  | JsTypeError string
  | JsStr string
  | JsUndefined
  | JsNull
  | JsPlainObject
  | JsNullProtoObject

fun instanceofError :: "js_value \<Rightarrow> bool" where
  "instanceofError (JsErrorObj m) = True"
| "instanceofError (JsTypeError m) = True"
| "instanceofError v = False"

text \<open>
  The built-in conversion \<open>String(v)\<close>. An error converts to its name, followed by
  its message when the message is not empty. An object without prototype has no
  \<open>toString\<close>: the conversion throws a \<open>TypeError\<close>.
\<close>

fun String_js :: "js_value \<Rightarrow> js_value + string" where
  "String_js (JsErrorObj m) = Inr (if m = [] then ''Error'' else ''Error: '' @ m)"
| "String_js (JsTypeError m) = Inr (if m = [] then ''TypeError'' else ''TypeError: '' @ m)"
| "String_js (JsStr s) = Inr s"
| "String_js JsUndefined = Inr ''undefined''"
| "String_js JsNull = Inr ''null''"
| "String_js JsPlainObject = Inr ''[object Object]''"
| "String_js JsNullProtoObject = Inl (JsTypeError ''Cannot convert object to primitive value'')"

subsection \<open>Calls into the environment, and how they settle\<close>

text \<open>
  An awaited promise resolves, rejects, or never settles; a synchronous call returns or
  throws (\<open>js_value + 'a\<close>, \<open>Inl\<close> the thrown value).
\<close>

datatype 'a outcome = Resolved 'a | Rejected js_value | Pending

type_synonym handle = nat
type_synonym conn = nat
type_synonym worker = nat
type_synonym table = nat
type_synonym row = "(string \<times> string) list"

datatype DuckDBDataProtocol =
  BUFFER | NODE_FS | BROWSER_FILEREADER | BROWSER_FSACCESS | HTTP | S3

text \<open>
  The external calls. \<open>WorkerTerminate\<close> is the browser's call that releases a
  worker; it is listed because the trace is the record of what happens to workers, and
  no function of the hook issues it.
\<close>

datatype call =
    GetJsDelivrBundles
  | SelectBundle
  | CreateObjectURL string
  | NewWorker string
  | NewConsoleLogger
  | NewAsyncDuckDB worker
  | Instantiate handle string "string option"
  | RegisterFileURL handle string string DuckDBDataProtocol bool
  | ConsoleError string js_value
  | Connect handle
  | Query conn string
  | ToArray table
  | Close conn
  | WorkerTerminate worker

datatype settled = Returned | Threw | NeverSettled

type_synonym trace = "(call \<times> settled) list"

type_synonym 'a proc = "trace \<Rightarrow> 'a outcome \<times> trace"

fun settled_of :: "'a outcome \<Rightarrow> settled" where
  "settled_of (Resolved x) = Returned"
| "settled_of (Rejected e) = Threw"
| "settled_of Pending = NeverSettled"

definition await_call :: "call \<Rightarrow> 'a outcome \<Rightarrow> 'a proc" where
  "await_call c r tr = (r, tr @ [(c, settled_of r)])"

definition sync_call :: "call \<Rightarrow> js_value + 'a \<Rightarrow> 'a proc" where
  "sync_call c r tr =
     (case r of
        Inl e \<Rightarrow> (Rejected e, tr @ [(c, Threw)])
      | Inr x \<Rightarrow> (Resolved x, tr @ [(c, Returned)]))"

definition return_value :: "'a \<Rightarrow> 'a proc" where
  "return_value x tr = (Resolved x, tr)"

text \<open>Sequencing of statements: a rejection or a promise that never settles ends the block.\<close>

definition andThen :: "'a proc \<Rightarrow> ('a \<Rightarrow> 'b proc) \<Rightarrow> 'b proc" where
  "andThen m f tr =
     (case m tr of
        (Resolved x, tr1) \<Rightarrow> f x tr1
      | (Rejected e, tr1) \<Rightarrow> (Rejected e, tr1)
      | (Pending, tr1) \<Rightarrow> (Pending, tr1))"

text \<open>
  \<open>try { m } finally { fin }\<close>: \<open>fin\<close> runs when \<open>m\<close> completes, normally or
  by a throw; a throw of \<open>fin\<close> replaces the completion of \<open>m\<close>. When \<open>m\<close>
  never settles, \<open>fin\<close> is never reached.
\<close>

definition tryFinally :: "'a proc \<Rightarrow> unit proc \<Rightarrow> 'a proc" where
  "tryFinally m fin tr =
     (case m tr of
        (Pending, tr1) \<Rightarrow> (Pending, tr1)
      | (r, tr1) \<Rightarrow>
          (case fin tr1 of
             (Resolved u, tr2) \<Rightarrow> (r, tr2)
           | (Rejected e, tr2) \<Rightarrow> (Rejected e, tr2)
           | (Pending, tr2) \<Rightarrow> (Pending, tr2)))"

subsection \<open>The environment\<close>

record duckdb_bundle =
  mainModule :: string
  mainWorker :: "string option"
  pthreadWorker :: "string option"

text \<open>
  The browser and the duckdb-wasm library as the initializer sees them, and the value of
  the environment variable \<open>NEXT_PUBLIC_DATA_URL\<close>.
\<close>

record browser =
  NEXT_PUBLIC_DATA_URL :: "string option"
  getJsDelivrBundles :: "js_value + nat"
  selectBundle :: "nat \<Rightarrow> duckdb_bundle outcome"
  createObjectURL :: "string \<Rightarrow> js_value + string"
  newWorker :: "string \<Rightarrow> js_value + worker"
  newConsoleLogger :: "js_value + unit"
  newAsyncDuckDB :: "worker \<Rightarrow> js_value + handle"
  instantiate :: "handle \<Rightarrow> string \<Rightarrow> string option \<Rightarrow> unit outcome"
  registerFileURL ::
    "handle \<Rightarrow> string \<Rightarrow> string \<Rightarrow> DuckDBDataProtocol \<Rightarrow> bool \<Rightarrow> unit outcome"

text \<open>The engine as one call of \<open>executeQuery\<close> sees it.\<close>

record engine =
  connect :: "handle \<Rightarrow> conn outcome"
  query :: "conn \<Rightarrow> string \<Rightarrow> table outcome"
  toArray_toJSON :: "table \<Rightarrow> js_value + row list"
  close :: "conn \<Rightarrow> unit outcome"

subsection \<open>The hook\<close>

record DuckDBState =
  db :: "handle option"
  loading :: bool
  error :: "js_value option"

text \<open>
  \<open>PARQUET_URL = process.env.NEXT_PUBLIC_DATA_URL || "/data/emendas_rastreadas.parquet"\<close>:
  an unset variable and the empty string are both falsy.
\<close>

definition PARQUET_URL :: "string option \<Rightarrow> string" where
  "PARQUET_URL env =
     (case env of
        None \<Rightarrow> ''/data/emendas_rastreadas.parquet''
      | Some u \<Rightarrow> (if u = [] then ''/data/emendas_rastreadas.parquet'' else u))"

text \<open>
  One mounted instance of the hook: the React state, the effect's \<open>isMounted\<close>
  variable, whether the call \<open>initDuckDB()\<close> of the effect is still to run, and the
  trace of the page.
\<close>

record hook =
  state :: DuckDBState
  isMounted :: bool
  initPending :: bool
  trace :: trace

definition initialState :: DuckDBState where
  "initialState = \<lparr>db = None, loading = True, error = None\<rparr>"

definition mount :: "trace \<Rightarrow> hook" where
  "mount tr = \<lparr>state = initialState, isMounted = True, initPending = True, trace = tr\<rparr>"

text \<open>The body of the \<open>try\<close> block of \<open>initDuckDB\<close>, lines 26 to 51.\<close>

definition worker_script :: "duckdb_bundle \<Rightarrow> string" where
  "worker_script b =
     ''importScripts('' @ [CHR 0x22] @
     (case mainWorker b of None \<Rightarrow> ''null'' | Some u \<Rightarrow> u) @
     [CHR 0x22] @ '');''"

definition initBody :: "browser \<Rightarrow> handle proc" where
  "initBody b =
     andThen (sync_call GetJsDelivrBundles (getJsDelivrBundles b)) (\<lambda>JSDELIVR_BUNDLES.
     andThen (await_call SelectBundle (selectBundle b JSDELIVR_BUNDLES)) (\<lambda>bundle.
     andThen (sync_call (CreateObjectURL (worker_script bundle))
                (createObjectURL b (worker_script bundle))) (\<lambda>worker_url.
     andThen (sync_call (NewWorker worker_url) (newWorker b worker_url)) (\<lambda>worker.
     andThen (sync_call NewConsoleLogger (newConsoleLogger b)) (\<lambda>logger.
     andThen (sync_call (NewAsyncDuckDB worker) (newAsyncDuckDB b worker)) (\<lambda>h.
     andThen (await_call (Instantiate h (mainModule bundle) (pthreadWorker bundle))
                (instantiate b h (mainModule bundle) (pthreadWorker bundle))) (\<lambda>u.
     andThen (await_call
                (RegisterFileURL h ''emendas.parquet'' (PARQUET_URL (NEXT_PUBLIC_DATA_URL b)) HTTP False)
                (registerFileURL b h ''emendas.parquet'' (PARQUET_URL (NEXT_PUBLIC_DATA_URL b)) HTTP False))
             (\<lambda>u.
     return_value h))))))))"

text \<open>
  \<open>error instanceof Error ? error : new Error(String(error))\<close>, line 62. The
  expression throws when \<open>String\<close> does.
\<close>

definition toError :: "js_value \<Rightarrow> js_value + js_value" where
  "toError e =
     (if instanceofError e then Inr e
      else (case String_js e of Inl t \<Rightarrow> Inl t | Inr s \<Rightarrow> Inr (JsErrorObj s)))"

text \<open>
  \<open>initDuckDB\<close>, lines 24 to 66: the \<open>try\<close> block, the \<open>catch\<close> block and
  the two guarded \<open>setState\<close> calls. The result is how the promise of the async
  function settles. In the \<open>catch\<close> block the argument of \<open>setState\<close> is
  evaluated before the call: when line 62 throws, no state is written and the promise
  rejects with what line 62 threw.
\<close>

definition initDuckDB :: "browser \<Rightarrow> hook \<Rightarrow> unit outcome \<times> hook" where
  "initDuckDB b c =
     (case initBody b (trace c) of
        (Resolved h, tr) \<Rightarrow>
          (Resolved (),
           if isMounted c
           then c\<lparr>state := \<lparr>db = Some h, loading = False, error = None\<rparr>, trace := tr\<rparr>
           else c\<lparr>trace := tr\<rparr>)
      | (Rejected e, tr) \<Rightarrow>
          (if isMounted c
           then (case toError e of
                   Inr err \<Rightarrow>
                     (Resolved (),
                      c\<lparr>state := \<lparr>db = None, loading = False, error = Some err\<rparr>,
                        trace := tr @ [(ConsoleError ''Failed to initialize DuckDB:'' e, Returned)]\<rparr>)
                 | Inl t \<Rightarrow>
                     (Rejected t,
                      c\<lparr>trace := tr @ [(ConsoleError ''Failed to initialize DuckDB:'' e, Returned)]\<rparr>))
           else (Resolved (),
                 c\<lparr>trace := tr @ [(ConsoleError ''Failed to initialize DuckDB:'' e, Returned)]\<rparr>))
      | (Pending, tr) \<Rightarrow> (Pending, c\<lparr>trace := tr\<rparr>))"

text \<open>\<open>executeQuery\<close>, lines 75 to 90.\<close>

definition executeQuery :: "engine \<Rightarrow> string \<Rightarrow> hook \<Rightarrow> row list outcome \<times> hook" where
  "executeQuery eng sql c =
     (case db (state c) of
        None \<Rightarrow> (Rejected (JsErrorObj ''Database not initialized''), c)
      | Some h \<Rightarrow>
          (case andThen (await_call (Connect h) (connect eng h)) (\<lambda>cn.
                  tryFinally
                    (andThen (await_call (Query cn sql) (query eng cn sql)) (\<lambda>result.
                       sync_call (ToArray result) (toArray_toJSON eng result)))
                    (await_call (Close cn) (close eng cn)))
                (trace c)
           of (r, tr) \<Rightarrow> (r, c\<lparr>trace := tr\<rparr>)))"

text \<open>What the hook returns to its caller, lines 92 to 98.\<close>

record hook_result =
  r_db :: "handle option"
  r_loading :: bool
  r_error :: "js_value option"
  r_executeQuery :: "engine \<Rightarrow> string \<Rightarrow> row list outcome \<times> hook"
  r_isReady :: bool

definition useDuckDB_result :: "hook \<Rightarrow> hook_result" where
  "useDuckDB_result c =
     \<lparr>r_db = db (state c),
      r_loading = loading (state c),
      r_error = error (state c),
      r_executeQuery = (\<lambda>eng sql. executeQuery eng sql c),
      r_isReady = (db (state c) \<noteq> None \<and> \<not> loading (state c))\<rparr>"

subsection \<open>The life of one mounted instance\<close>

text \<open>
  After the mount, three things can happen, in any order and any number of times: the
  initializer started by the effect runs against the browser of the page (once: the
  effect has an empty dependency list), the effect's cleanup runs (line 71), and a
  caller invokes \<open>executeQuery\<close>. The event \<open>InitRuns\<close> is the initializer
  getting as far as the browser lets it: its calls are appended to the trace, and
  \<open>isMounted\<close> is read as it is at that moment, so a cleanup that comes while the
  initializer is waiting is a \<open>Cleanup\<close> before \<open>InitRuns\<close>.
\<close>

datatype hook_event =
    InitRuns
  | Cleanup
  | CallQuery engine string

fun step :: "browser \<Rightarrow> hook \<Rightarrow> hook_event \<Rightarrow> hook" where
  "step b c InitRuns =
     (if initPending c then snd (initDuckDB b (c\<lparr>initPending := False\<rparr>)) else c)"
| "step b c Cleanup = c\<lparr>isMounted := False\<rparr>"
| "step b c (CallQuery eng sql) = snd (executeQuery eng sql c)"

definition run :: "browser \<Rightarrow> hook \<Rightarrow> hook_event list \<Rightarrow> hook" where
  "run b c es = foldl (step b) c es"

subsection \<open>Reading a trace\<close>

fun isConnect :: "call \<Rightarrow> bool" where
  "isConnect (Connect h) = True"
| "isConnect c = False"

fun isClose :: "call \<Rightarrow> bool" where
  "isClose (Close cn) = True"
| "isClose c = False"

fun isRegister :: "call \<Rightarrow> bool" where
  "isRegister (RegisterFileURL h n u p f) = True"
| "isRegister c = False"

fun isNewWorker :: "call \<Rightarrow> bool" where
  "isNewWorker (NewWorker u) = True"
| "isNewWorker c = False"

fun isWorkerTerminate :: "call \<Rightarrow> bool" where
  "isWorkerTerminate (WorkerTerminate w) = True"
| "isWorkerTerminate c = False"

fun usesEngine :: "call \<Rightarrow> bool" where
  "usesEngine (Connect h) = True"
| "usesEngine (Query cn sql) = True"
| "usesEngine (ToArray t) = True"
| "usesEngine (Close cn) = True"
| "usesEngine c = False"

text \<open>Calls to \<open>connect\<close> and calls to \<open>close\<close>, however they settled.\<close>

definition acquire_calls :: "trace \<Rightarrow> nat" where
  "acquire_calls tr = length (filter (\<lambda>x. isConnect (fst x)) tr)"

definition release_calls :: "trace \<Rightarrow> nat" where
  "release_calls tr = length (filter (\<lambda>x. isClose (fst x)) tr)"

definition registrations :: "trace \<Rightarrow> call list" where
  "registrations tr = filter isRegister (map fst tr)"

text \<open>Workers that \<open>new Worker\<close> handed out, and workers terminated.\<close>

definition workers_created :: "trace \<Rightarrow> nat" where
  "workers_created tr = length (filter (\<lambda>x. isNewWorker (fst x) \<and> snd x = Returned) tr)"

definition workers_terminated :: "trace \<Rightarrow> nat" where
  "workers_terminated tr = length (filter (\<lambda>x. isWorkerTerminate (fst x)) tr)"

definition live_workers :: "trace \<Rightarrow> nat" where
  "live_workers tr = workers_created tr - workers_terminated tr"


text \<open>Whether the initializer gets as far as a worker that \<open>new Worker\<close> returns.\<close>

definition allocatesWorker :: "browser \<Rightarrow> bool" where
  "allocatesWorker b =
     (case getJsDelivrBundles b of
        Inl e \<Rightarrow> False
      | Inr bs \<Rightarrow>
          (case selectBundle b bs of
             Resolved bd \<Rightarrow>
               (case createObjectURL b (worker_script bd) of
                  Inl e \<Rightarrow> False
                | Inr url \<Rightarrow> (case newWorker b url of Inl e \<Rightarrow> False | Inr w \<Rightarrow> True))
           | Rejected e \<Rightarrow> False
           | Pending \<Rightarrow> False))"


text \<open>The three shapes of the lifecycle state.\<close>

definition isLoading :: "DuckDBState \<Rightarrow> bool" where
  "isLoading s = (db s = None \<and> loading s \<and> error s = None)"

definition isReadyState :: "DuckDBState \<Rightarrow> bool" where
  "isReadyState s = (db s \<noteq> None \<and> \<not> loading s \<and> error s = None)"

definition isErrorState :: "DuckDBState \<Rightarrow> bool" where
  "isErrorState s = (db s = None \<and> \<not> loading s \<and> error s \<noteq> None)"

subsection \<open>Sample environments\<close>

definition mvpBundle :: duckdb_bundle where
  "mvpBundle =
     \<lparr>mainModule = ''duckdb-mvp.wasm'',
      mainWorker = Some ''duckdb-browser-mvp.worker.js'',
      pthreadWorker = None\<rparr>"

text \<open>A browser in which every step of the initialization succeeds.\<close>

definition goodBrowser :: browser where
  "goodBrowser =
     \<lparr>NEXT_PUBLIC_DATA_URL = None,
      getJsDelivrBundles = Inr 0,
      selectBundle = (\<lambda>bs. Resolved mvpBundle),
      createObjectURL = (\<lambda>s. Inr ''blob:1''),
      newWorker = (\<lambda>u. Inr 1),
      newConsoleLogger = Inr (),
      newAsyncDuckDB = (\<lambda>w. Inr 7),
      instantiate = (\<lambda>h m p. Resolved ()),
      registerFileURL = (\<lambda>h n u p f. Resolved ())\<rparr>"

text \<open>A browser in which no bundle is supported: \<open>selectBundle\<close> throws a string.\<close>

definition noBundleBrowser :: browser where
  "noBundleBrowser = goodBrowser\<lparr>selectBundle := (\<lambda>bs. Rejected (JsStr ''no bundle''))\<rparr>"

text \<open>A browser in which the engine fails to start: \<open>instantiate\<close> rejects with an \<open>Error\<close>.\<close>

definition wasmFailsBrowser :: browser where
  "wasmFailsBrowser = goodBrowser\<lparr>instantiate := (\<lambda>h m p. Rejected (JsErrorObj ''wasm failed''))\<rparr>"

text \<open>
  A browser in which \<open>selectBundle\<close> rejects with an object without prototype, one
  in which \<open>instantiate\<close> never settles, and one built with the data URL configured.
\<close>

definition nullProtoBrowser :: browser where
  "nullProtoBrowser = goodBrowser\<lparr>selectBundle := (\<lambda>bs. Rejected JsNullProtoObject)\<rparr>"

definition hangingBrowser :: browser where
  "hangingBrowser = goodBrowser\<lparr>instantiate := (\<lambda>h m p. Pending)\<rparr>"


text \<open>An engine that answers a query with one row, and one that rejects the SQL.\<close>

definition goodEngine :: engine where
  "goodEngine =
     \<lparr>connect = (\<lambda>h. Resolved 3),
      query = (\<lambda>cn sql. Resolved 5),
      toArray_toJSON = (\<lambda>t. Inr [[(''c'', ''3'')]]),
      close = (\<lambda>cn. Resolved ())\<rparr>"

definition badSqlEngine :: engine where
  "badSqlEngine = goodEngine\<lparr>query := (\<lambda>cn sql. Rejected (JsErrorObj ''Parser Error''))\<rparr>"

definition readyHook :: hook where
  "readyHook = run goodBrowser (mount []) [InitRuns]"

subsection \<open>The calls of the initializer, and the shape of a run\<close>

text \<open>The calls one run of \<open>initDuckDB\<close> makes, from an empty trace.\<close>

definition initTrace :: "browser \<Rightarrow> trace" where
  "initTrace b = trace (snd (initDuckDB b (mount [])))"

text \<open>
  The shape of an instance mounted on trace \<open>tr\<close> after the events \<open>es\<close>: its
  trace is \<open>tr\<close>, then the calls of the initializer if it has run, then the calls
  \<open>q\<close> of the queries, which exist only once the handle is set.
\<close>

definition shaped :: "browser \<Rightarrow> trace \<Rightarrow> hook_event list \<Rightarrow> hook \<Rightarrow> trace \<Rightarrow> bool" where
  "shaped b tr es c q \<longleftrightarrow>
     trace c = tr @ (if InitRuns \<in> set es then initTrace b else []) @ q \<and>
     (\<forall>x\<in>set q. usesEngine (fst x)) \<and>
     (q \<noteq> [] \<longrightarrow> db (state c) \<noteq> None) \<and>
     initPending c = (InitRuns \<notin> set es) \<and>
     (initPending c \<longrightarrow> state c = initialState) \<and>
     (state c \<noteq> initialState \<longrightarrow> fst (initBody b []) \<noteq> Pending) \<and>
     (\<forall>h. db (state c) = Some h \<longrightarrow> fst (initBody b []) = Resolved h)"

text \<open>A second browser, in which the library hands out another engine instance.\<close>

definition otherBrowser :: browser where
  "otherBrowser = goodBrowser\<lparr>newAsyncDuckDB := (\<lambda>w. Inr 8)\<rparr>"

section \<open>Evaluating the model\<close>

lemmas proc_defs = andThen_def tryFinally_def await_call_def sync_call_def return_value_def

lemma readyHook_eq:
  "readyHook =
     \<lparr>state = \<lparr>db = Some 7, loading = False, error = None\<rparr>, isMounted = True,
      initPending = False,
      trace =
        [(GetJsDelivrBundles, Returned), (SelectBundle, Returned),
         (CreateObjectURL (worker_script mvpBundle), Returned),
         (NewWorker ''blob:1'', Returned), (NewConsoleLogger, Returned),
         (NewAsyncDuckDB 1, Returned),
         (Instantiate 7 ''duckdb-mvp.wasm'' None, Returned),
         (RegisterFileURL 7 ''emendas.parquet'' ''/data/emendas_rastreadas.parquet'' HTTP False,
          Returned)]\<rparr>"
  by (simp add: readyHook_def run_def mount_def initialState_def initDuckDB_def initBody_def
      proc_defs goodBrowser_def mvpBundle_def PARQUET_URL_def)

section \<open>What the two functions leave alone\<close>

lemma executeQuery_frame:
  "state (snd (executeQuery eng sql c)) = state c \<and>
   isMounted (snd (executeQuery eng sql c)) = isMounted c \<and>
   initPending (snd (executeQuery eng sql c)) = initPending c"
  by (simp add: executeQuery_def split: option.splits prod.splits)

lemma executeQuery_snd:
  "snd (executeQuery eng sql c) = c\<lparr>trace := trace (snd (executeQuery eng sql c))\<rparr>"
  by (simp add: executeQuery_def split: option.splits prod.splits)

lemma executeQuery_fst_trace:
  "fst (executeQuery eng sql (c\<lparr>trace := tr\<rparr>)) = fst (executeQuery eng sql c)"
  by (simp add: executeQuery_def proc_defs
      split: option.splits prod.splits outcome.splits sum.splits)

lemma initDuckDB_frame:
  "isMounted (snd (initDuckDB b c)) = isMounted c \<and>
   initPending (snd (initDuckDB b c)) = initPending c"
  by (simp add: initDuckDB_def split: outcome.splits prod.splits sum.splits)

lemma initDuckDB_unmounted:
  "\<not> isMounted c \<Longrightarrow> state (snd (initDuckDB b c)) = state c"
  by (simp add: initDuckDB_def split: outcome.splits prod.splits sum.splits)

lemma step_unmounted:
  "\<not> isMounted c \<Longrightarrow> state (step b c ev) = state c \<and> \<not> isMounted (step b c ev)"
  by (cases ev) (simp_all add: executeQuery_frame initDuckDB_frame initDuckDB_unmounted)

lemma run_unmounted:
  "\<not> isMounted c \<Longrightarrow> state (run b c es) = state c \<and> \<not> isMounted (run b c es)"
proof (induction es arbitrary: c)
  case Nil
  then show ?case by (simp add: run_def)
next
  case (Cons ev es)
  have "\<not> isMounted (step b c ev)" and "state (step b c ev) = state c"
    using Cons.prems step_unmounted by blast+
  with Cons.IH [of "step b c ev"] show ?case by (simp add: run_def)
qed

text \<open>
  The \<open>try\<close> block throws exactly when one of its steps throws after the steps
  before it succeeded.
\<close>

lemma initBody_Rejected_iff:
  "fst (initBody b tr) = Rejected e \<longleftrightarrow>
     getJsDelivrBundles b = Inl e \<or>
     (\<exists>bs. getJsDelivrBundles b = Inr bs \<and>
       (selectBundle b bs = Rejected e \<or>
        (\<exists>bd. selectBundle b bs = Resolved bd \<and>
          (createObjectURL b (worker_script bd) = Inl e \<or>
           (\<exists>url. createObjectURL b (worker_script bd) = Inr url \<and>
             (newWorker b url = Inl e \<or>
              (\<exists>w. newWorker b url = Inr w \<and>
                (newConsoleLogger b = Inl e \<or>
                 (newConsoleLogger b = Inr () \<and>
                  (newAsyncDuckDB b w = Inl e \<or>
                   (\<exists>h. newAsyncDuckDB b w = Inr h \<and>
                     (instantiate b h (mainModule bd) (pthreadWorker bd) = Rejected e \<or>
                      (instantiate b h (mainModule bd) (pthreadWorker bd) = Resolved () \<and>
                       registerFileURL b h ''emendas.parquet''
                         (PARQUET_URL (NEXT_PUBLIC_DATA_URL b)) HTTP False = Rejected e)))))))))))))"
  by (simp add: initBody_def proc_defs split: sum.splits outcome.splits)

lemma toError_is_Error: "toError e = Inr err \<Longrightarrow> instanceofError err"
  by (cases e) (auto simp: toError_def split: if_splits)


section \<open>The trace of a run\<close>


lemma initBody_append:
  "initBody b tr = (fst (initBody b []), tr @ snd (initBody b []))"
  by (simp add: initBody_def proc_defs split: sum.splits outcome.splits)

lemma initDuckDB_pending:
  "fst (initBody b []) = Pending \<Longrightarrow> state (snd (initDuckDB b c)) = state c"
  apply (subst initDuckDB_def)
  apply (subst initBody_append)
  apply simp
  done

lemma initDuckDB_trace:
  "trace (snd (initDuckDB b c)) = trace c @ initTrace b"
  apply (subst initDuckDB_def)
  apply (subst initBody_append)
  apply (simp add: initTrace_def initDuckDB_def mount_def
      split: outcome.splits prod.splits sum.splits)
  done

lemma initDuckDB_db:
  "db (state (snd (initDuckDB b c))) = Some h \<Longrightarrow>
     db (state c) = Some h \<or> fst (initBody b []) = Resolved h"
  apply (subst (asm) initDuckDB_def)
  apply (subst (asm) initBody_append)
  apply (auto split: outcome.splits prod.splits if_splits sum.splits)
  done

lemma executeQuery_trace:
  "\<exists>q. trace (snd (executeQuery eng sql c)) = trace c @ q \<and>
       (\<forall>x\<in>set q. usesEngine (fst x)) \<and> (db (state c) = None \<longrightarrow> q = [])"
  by (auto simp: executeQuery_def proc_defs split: option.splits outcome.splits sum.splits)


lemma run_snoc: "run b c (es @ [ev]) = step b (run b c es) ev"
  by (simp add: run_def)

lemma shaped_step:
  assumes "shaped b tr es c q"
  shows "\<exists>q'. shaped b tr (es @ [ev]) (step b c ev) q'"
proof (cases ev)
  case InitRuns
  show ?thesis
  proof (cases "initPending c")
    case True
    with assms have q: "q = []" and tr: "trace c = tr" and st: "state c = initialState"
      and no: "InitRuns \<notin> set es"
      by (auto simp: shaped_def initialState_def)
    let ?c' = "snd (initDuckDB b (c\<lparr>initPending := False\<rparr>))"
    have "trace ?c' = tr @ initTrace b"
      using tr by (simp add: initDuckDB_trace)
    moreover have "\<not> initPending ?c'"
      by (simp add: initDuckDB_frame)
    moreover have "\<forall>h. db (state ?c') = Some h \<longrightarrow> fst (initBody b []) = Resolved h"
      using initDuckDB_db [of b "c\<lparr>initPending := False\<rparr>"] st
      by (auto simp: initialState_def)
    moreover have "state ?c' \<noteq> initialState \<longrightarrow> fst (initBody b []) \<noteq> Pending"
      using initDuckDB_pending [of b "c\<lparr>initPending := False\<rparr>"] st by auto
    ultimately have "shaped b tr (es @ [ev]) (step b c ev) []"
      using InitRuns True by (simp add: shaped_def)
    then show ?thesis ..
  next
    case False
    with assms InitRuns have "shaped b tr (es @ [ev]) (step b c ev) q"
      by (simp add: shaped_def)
    then show ?thesis ..
  qed
next
  case Cleanup
  with assms have "shaped b tr (es @ [ev]) (step b c ev) q"
    by (simp add: shaped_def)
  then show ?thesis ..
next
  case (CallQuery eng sql)
  obtain q' where q': "trace (snd (executeQuery eng sql c)) = trace c @ q'"
      "\<forall>x\<in>set q'. usesEngine (fst x)" "db (state c) = None \<longrightarrow> q' = []"
    using executeQuery_trace by blast
  with assms CallQuery have "shaped b tr (es @ [ev]) (step b c ev) (q @ q')"
    by (auto simp: shaped_def executeQuery_frame)
  then show ?thesis ..
qed

lemma run_shaped: "\<exists>q. shaped b tr es (run b (mount tr) es) q"
proof (induction es rule: rev_induct)
  case Nil
  have "shaped b tr [] (run b (mount tr) []) []"
    by (simp add: shaped_def run_def mount_def initialState_def)
  then show ?case ..
next
  case (snoc ev es)
  then obtain q where "shaped b tr es (run b (mount tr) es) q" ..
  then show ?case
    using shaped_step [of b tr es "run b (mount tr) es" q ev] by (simp add: run_snoc)
qed


lemmas initTrace_defs = initTrace_def initDuckDB_def initBody_def proc_defs mount_def

lemma initTrace_no_engine:
  "x \<in> set (initTrace b) \<Longrightarrow> \<not> usesEngine (fst x) \<and> \<not> isWorkerTerminate (fst x)"
  by (auto simp: initTrace_defs split: sum.splits outcome.splits)

lemma initTrace_workers:
  "workers_created (initTrace b) = (if allocatesWorker b then 1 else 0)"
  by (simp add: initTrace_defs workers_created_def allocatesWorker_def
      split: sum.splits outcome.splits)



lemma registrations_append [simp]:
  "registrations (xs @ ys) = registrations xs @ registrations ys"
  by (simp add: registrations_def)

lemma registrations_Nil [simp]: "registrations [] = []"
  by (simp add: registrations_def)


lemma engine_calls_only:
  assumes "\<forall>x\<in>set q. usesEngine (fst x)"
  shows "registrations q = []" and "(Instantiate h m p, s) \<notin> set q"
    and "workers_created q = 0" and "workers_terminated q = 0"
proof -
  have *: "\<And>x. x \<in> set q \<Longrightarrow> \<not> isRegister (fst x) \<and> \<not> isNewWorker (fst x) \<and>
      \<not> isWorkerTerminate (fst x) \<and> fst x \<noteq> Instantiate h m p"
  proof -
    fix x assume "x \<in> set q"
    with assms have "usesEngine (fst x)" by blast
    then show "\<not> isRegister (fst x) \<and> \<not> isNewWorker (fst x) \<and>
      \<not> isWorkerTerminate (fst x) \<and> fst x \<noteq> Instantiate h m p"
      by (cases "fst x") simp_all
  qed
  show "registrations q = []"
    using * by (auto simp: registrations_def filter_empty_conv)
  show "(Instantiate h m p, s) \<notin> set q"
    using * by force
  show "workers_created q = 0"
    using * by (auto simp: workers_created_def filter_empty_conv)
  show "workers_terminated q = 0"
    using * by (auto simp: workers_terminated_def filter_empty_conv)
qed









section \<open>The state of a run\<close>

lemma run_append: "run b c (es @ es') = run b (run b c es) es'"
  by (simp add: run_def)

lemma step_settled:
  "\<not> initPending c \<Longrightarrow> state (step b c ev) = state c \<and> \<not> initPending (step b c ev)"
  by (cases ev) (simp_all add: executeQuery_frame)

lemma run_settled:
  "\<not> initPending c \<Longrightarrow> state (run b c es) = state c \<and> \<not> initPending (run b c es)"
proof (induction es arbitrary: c)
  case Nil
  then show ?case by (simp add: run_def)
next
  case (Cons ev es)
  from Cons.prems have "state (step b c ev) = state c" and "\<not> initPending (step b c ev)"
    using step_settled by blast+
  with Cons.IH [of "step b c ev"] show ?case by (simp add: run_def)
qed

lemma initDuckDB_state:
  "state (snd (initDuckDB b c)) = state c \<or>
   (\<exists>h. state (snd (initDuckDB b c)) = \<lparr>db = Some h, loading = False, error = None\<rparr>) \<or>
   (\<exists>e. state (snd (initDuckDB b c)) = \<lparr>db = None, loading = False, error = Some e\<rparr>)"
  by (simp add: initDuckDB_def split: outcome.splits prod.splits sum.splits)

lemma step_state:
  "state (step b c ev) = state c \<or>
   (\<exists>h. state (step b c ev) = \<lparr>db = Some h, loading = False, error = None\<rparr>) \<or>
   (\<exists>e. state (step b c ev) = \<lparr>db = None, loading = False, error = Some e\<rparr>)"
proof (cases ev)
  case InitRuns
  then show ?thesis
    using initDuckDB_state [of b "c\<lparr>initPending := False\<rparr>"] by auto
next
  case Cleanup
  then show ?thesis by simp
next
  case (CallQuery eng sql)
  then show ?thesis by (simp add: executeQuery_frame)
qed

lemma run_state:
  "state (run b (mount tr) es) = initialState \<or>
   (\<exists>h. state (run b (mount tr) es) = \<lparr>db = Some h, loading = False, error = None\<rparr>) \<or>
   (\<exists>e. state (run b (mount tr) es) = \<lparr>db = None, loading = False, error = Some e\<rparr>)"
proof (induction es rule: rev_induct)
  case Nil
  then show ?case by (simp add: run_def mount_def)
next
  case (snoc ev es)
  then show ?case
    using step_state [of b "run b (mount tr) es" ev] by (auto simp: run_snoc)
qed

lemma executeQuery_guard:
  "(executeQuery eng sql c = (Rejected (JsErrorObj ''Database not initialized''), c)) =
   (db (state c) = None)"
proof (cases "db (state c)")
  case None
  then show ?thesis by (simp add: executeQuery_def)
next
  case (Some h)
  then have "length (trace c) < length (trace (snd (executeQuery eng sql c)))"
    by (simp add: executeQuery_def proc_defs split: outcome.splits sum.splits)
  then have "snd (executeQuery eng sql c) \<noteq> c"
    by auto
  with Some show ?thesis by auto
qed

lemma otherHook_state:
  "state (run otherBrowser (mount []) [InitRuns]) = \<lparr>db = Some 8, loading = False, error = None\<rparr>"
  by (simp add: run_def mount_def initialState_def initDuckDB_def initBody_def
      proc_defs otherBrowser_def goodBrowser_def)

lemma workers_append [simp]:
  "workers_created (xs @ ys) = workers_created xs + workers_created ys"
  "workers_terminated (xs @ ys) = workers_terminated xs + workers_terminated ys"
  by (simp_all add: workers_created_def workers_terminated_def)

lemma workers_Nil [simp]: "workers_created [] = 0" "workers_terminated [] = 0"
  by (simp_all add: workers_created_def workers_terminated_def)

lemma initTrace_no_terminate: "workers_terminated (initTrace b) = 0"
  using initTrace_no_engine [of _ b]
  by (auto simp: workers_terminated_def filter_empty_conv)

section \<open>Query executor\<close>

text \<open>
  C2. Called while the database handle is null, \<open>executeQuery\<close> rejects at once with
  the error "Database not initialized", whatever the SQL text and whatever the engine
  would do (also an engine none of whose promises ever settles): it makes no call, so
  nothing is queued and nothing is awaited. The error is the hook's own: when the handle
  is not null, every rejection of \<open>executeQuery\<close> carries a value thrown by one of the
  engine's calls.
\<close>

theorem executeQuery_not_initialized:
  "(db (state c) = None \<longrightarrow>
      executeQuery eng sql c = (Rejected (JsErrorObj ''Database not initialized''), c)) \<and>
   (db (state c) = Some h \<and> fst (executeQuery eng sql c) = Rejected e \<longrightarrow>
      connect eng h = Rejected e \<or>
      (\<exists>cn. connect eng h = Resolved cn \<and>
         (close eng cn = Rejected e \<or>
          query eng cn sql = Rejected e \<or>
          (\<exists>t. query eng cn sql = Resolved t \<and> toArray_toJSON eng t = Inl e))))"
  by (auto simp: executeQuery_def andThen_def tryFinally_def await_call_def sync_call_def
      split: option.splits outcome.splits prod.splits sum.splits)

theorem executeQuery_not_initialized_witness:
  "db (state (mount [])) = None \<and>
   executeQuery goodEngine ''SELECT 1'' (mount []) =
     (Rejected (JsErrorObj ''Database not initialized''), mount []) \<and>
   db (state readyHook) = Some 7 \<and>
   fst (executeQuery badSqlEngine ''SELEC 1'' readyHook) = Rejected (JsErrorObj ''Parser Error'') \<and>
   connect badSqlEngine 7 = Resolved 3 \<and>
   query badSqlEngine 3 ''SELEC 1'' = Rejected (JsErrorObj ''Parser Error'')"
  using executeQuery_not_initialized [of "mount []" goodEngine "''SELECT 1''"]
    executeQuery_not_initialized [where c = readyHook and h = 7 and eng = badSqlEngine
      and sql = "''SELEC 1''" and e = "JsErrorObj ''Parser Error''"]
  by (simp add: mount_def initialState_def readyHook_eq executeQuery_def proc_defs
      badSqlEngine_def goodEngine_def)

text \<open>
  C1. When \<open>connect\<close> has handed out a connection, and the engine settles the query
  and the \<open>close\<close>, the call settles and \<open>close\<close> has been called on that
  connection: the calls of this \<open>executeQuery\<close> are the \<open>connect\<close>, then calls
  that neither acquire nor release, then the \<open>close\<close>, whether the query and the
  conversion of its result succeeded or threw. So the call adds one to the number of
  acquire calls and one to the number of release calls. The call settles as the
  \<open>close\<close> does when that rejects, and as the query and the conversion do otherwise.
\<close>

theorem executeQuery_releases_connection:
  assumes "db (state c) = Some h" and "connect eng h = Resolved cn"
    and "query eng cn sql \<noteq> Pending" and "close eng cn \<noteq> Pending"
  shows "fst (executeQuery eng sql c) \<noteq> Pending \<and>
         fst (executeQuery eng sql c) =
           (case close eng cn of
              Rejected e \<Rightarrow> Rejected e
            | Pending \<Rightarrow> Pending
            | Resolved u \<Rightarrow>
                (case query eng cn sql of
                   Rejected e \<Rightarrow> Rejected e
                 | Pending \<Rightarrow> Pending
                 | Resolved t \<Rightarrow>
                     (case toArray_toJSON eng t of Inl e \<Rightarrow> Rejected e | Inr rows \<Rightarrow> Resolved rows))) \<and>
         (\<exists>mid. trace (snd (executeQuery eng sql c)) =
            trace c @ [(Connect h, Returned)] @ mid @ [(Close cn, settled_of (close eng cn))] \<and>
          acquire_calls mid = 0 \<and> release_calls mid = 0) \<and>
         acquire_calls (trace (snd (executeQuery eng sql c))) = acquire_calls (trace c) + 1 \<and>
         release_calls (trace (snd (executeQuery eng sql c))) = release_calls (trace c) + 1"
  using assms
  by (auto simp: executeQuery_def proc_defs acquire_calls_def release_calls_def
      split: option.splits outcome.splits prod.splits sum.splits)

theorem executeQuery_releases_connection_witness:
  "db (state readyHook) = Some 7 \<and>
   connect goodEngine 7 = Resolved 3 \<and> query goodEngine 3 ''SELECT 1'' = Resolved 5 \<and>
   close goodEngine 3 = Resolved () \<and>
   fst (executeQuery goodEngine ''SELECT 1'' readyHook) = Resolved [[(''c'', ''3'')]] \<and>
   trace (snd (executeQuery goodEngine ''SELECT 1'' readyHook)) =
     trace readyHook @
       [(Connect 7, Returned), (Query 3 ''SELECT 1'', Returned), (ToArray 5, Returned),
        (Close 3, Returned)] \<and>
   release_calls (trace (snd (executeQuery goodEngine ''SELECT 1'' readyHook))) =
     release_calls (trace readyHook) + 1 \<and>
   connect badSqlEngine 7 = Resolved 3 \<and>
   query badSqlEngine 3 ''SELEC 1'' = Rejected (JsErrorObj ''Parser Error'') \<and>
   close badSqlEngine 3 = Resolved () \<and>
   fst (executeQuery badSqlEngine ''SELEC 1'' readyHook) = Rejected (JsErrorObj ''Parser Error'') \<and>
   trace (snd (executeQuery badSqlEngine ''SELEC 1'' readyHook)) =
     trace readyHook @ [(Connect 7, Returned), (Query 3 ''SELEC 1'', Threw), (Close 3, Returned)] \<and>
   acquire_calls (trace (snd (executeQuery badSqlEngine ''SELEC 1'' readyHook))) =
     acquire_calls (trace readyHook) + 1 \<and>
   release_calls (trace (snd (executeQuery badSqlEngine ''SELEC 1'' readyHook))) =
     release_calls (trace readyHook) + 1"
  using executeQuery_releases_connection [where c = readyHook and h = 7 and eng = badSqlEngine
      and sql = "''SELEC 1''" and cn = 3]
    executeQuery_releases_connection [where c = readyHook and h = 7 and eng = goodEngine
      and sql = "''SELECT 1''" and cn = 3]
  by (simp add: readyHook_eq executeQuery_def proc_defs badSqlEngine_def goodEngine_def)

text \<open>
  C4. \<open>executeQuery\<close> never writes the lifecycle state: after the call, resolved,
  rejected or never settled, the React state and with it the four published values
  \<open>db\<close>, \<open>loading\<close>, \<open>error\<close> and \<open>isReady\<close> are what they were. A
  later call sees the same handle: how it settles does not depend on the call before it.
\<close>

theorem executeQuery_keeps_lifecycle_state:
  "state (snd (executeQuery eng sql c)) = state c \<and>
   state (step b c (CallQuery eng sql)) = state c \<and>
   r_db (useDuckDB_result (step b c (CallQuery eng sql))) = r_db (useDuckDB_result c) \<and>
   r_loading (useDuckDB_result (step b c (CallQuery eng sql))) = r_loading (useDuckDB_result c) \<and>
   r_error (useDuckDB_result (step b c (CallQuery eng sql))) = r_error (useDuckDB_result c) \<and>
   r_isReady (useDuckDB_result (step b c (CallQuery eng sql))) = r_isReady (useDuckDB_result c) \<and>
   fst (executeQuery eng2 sql2 (snd (executeQuery eng sql c))) = fst (executeQuery eng2 sql2 c)"
proof -
  have "fst (executeQuery eng2 sql2 (snd (executeQuery eng sql c))) = fst (executeQuery eng2 sql2 c)"
    using executeQuery_snd [of eng sql c]
      executeQuery_fst_trace [where eng = eng2 and sql = sql2 and c = c] by metis
  then show ?thesis
    by (simp add: executeQuery_frame useDuckDB_result_def)
qed

section \<open>Initialization\<close>

text \<open>
  C3, as the code has it. An exception thrown by any step of the \<open>try\<close> block is
  caught and logged. After the cleanup the promise of \<open>initDuckDB\<close> resolves and the
  state is left as it was. While the instance is mounted and the thrown value is an
  \<open>Error\<close> or has a conversion to a string, the promise resolves and the state becomes
  the error state, with \<open>loading\<close> false, \<open>db\<close> null and \<open>error\<close> an
  \<open>Error\<close>: the thrown value itself when it is an \<open>Error\<close>, otherwise a new
  \<open>Error\<close> whose message is \<open>String\<close> of the thrown value.
\<close>

theorem initDuckDB_catches:
  assumes "fst (initBody b (trace c)) = Rejected e"
  shows "(\<not> isMounted c \<longrightarrow>
            fst (initDuckDB b c) = Resolved () \<and> state (snd (initDuckDB b c)) = state c) \<and>
         (isMounted c \<and> toError e = Inr err \<longrightarrow>
            fst (initDuckDB b c) = Resolved () \<and>
            state (snd (initDuckDB b c)) = \<lparr>db = None, loading = False, error = Some err\<rparr> \<and>
            instanceofError err \<and>
            (instanceofError e \<longrightarrow> err = e) \<and>
            (\<not> instanceofError e \<longrightarrow> (\<exists>s. String_js e = Inr s \<and> err = JsErrorObj s))) \<and>
         (instanceofError e \<or> (\<exists>s. String_js e = Inr s) \<longrightarrow> (\<exists>err. toError e = Inr err)) \<and>
         (ConsoleError ''Failed to initialize DuckDB:'' e, Returned) \<in> set (trace (snd (initDuckDB b c)))"
proof -
  obtain tr where body: "initBody b (trace c) = (Rejected e, tr)"
    using assms by (cases "initBody b (trace c)") simp
  have unmounted: "\<not> isMounted c \<longrightarrow>
      fst (initDuckDB b c) = Resolved () \<and> state (snd (initDuckDB b c)) = state c"
    by (simp add: initDuckDB_def body)
  have mounted: "isMounted c \<and> toError e = Inr err \<longrightarrow>
      fst (initDuckDB b c) = Resolved () \<and>
      state (snd (initDuckDB b c)) = \<lparr>db = None, loading = False, error = Some err\<rparr>"
    by (simp add: initDuckDB_def body)
  have conv: "toError e = Inr err \<longrightarrow> instanceofError err \<and>
      (instanceofError e \<longrightarrow> err = e) \<and>
      (\<not> instanceofError e \<longrightarrow> (\<exists>s. String_js e = Inr s \<and> err = JsErrorObj s))"
  proof
    assume t: "toError e = Inr err"
    then have "instanceofError err" by (rule toError_is_Error)
    moreover have "instanceofError e \<longrightarrow> err = e"
      using t by (auto simp: toError_def split: if_splits)
    moreover have "\<not> instanceofError e \<longrightarrow> (\<exists>s. String_js e = Inr s \<and> err = JsErrorObj s)"
      using t by (cases "String_js e") (auto simp: toError_def split: if_splits)
    ultimately show "instanceofError err \<and>
      (instanceofError e \<longrightarrow> err = e) \<and>
      (\<not> instanceofError e \<longrightarrow> (\<exists>s. String_js e = Inr s \<and> err = JsErrorObj s))"
      by blast
  qed
  have total: "instanceofError e \<or> (\<exists>s. String_js e = Inr s) \<longrightarrow> (\<exists>err. toError e = Inr err)"
    by (auto simp: toError_def)
  have logged: "(ConsoleError ''Failed to initialize DuckDB:'' e, Returned)
      \<in> set (trace (snd (initDuckDB b c)))"
    by (cases "toError e") (simp_all add: initDuckDB_def body)
  from unmounted mounted conv total logged show ?thesis by blast
qed

theorem initDuckDB_catches_witness:
  "fst (initBody noBundleBrowser (trace (mount []))) = Rejected (JsStr ''no bundle'') \<and>
   isMounted (mount []) \<and> \<not> instanceofError (JsStr ''no bundle'') \<and>
   String_js (JsStr ''no bundle'') = Inr ''no bundle'' \<and>
   toError (JsStr ''no bundle'') = Inr (JsErrorObj ''no bundle'') \<and>
   fst (initDuckDB noBundleBrowser (mount [])) = Resolved () \<and>
   state (snd (initDuckDB noBundleBrowser (mount []))) =
     \<lparr>db = None, loading = False, error = Some (JsErrorObj ''no bundle'')\<rparr> \<and>
   fst (initBody wasmFailsBrowser (trace (mount []))) = Rejected (JsErrorObj ''wasm failed'') \<and>
   instanceofError (JsErrorObj ''wasm failed'') \<and>
   toError (JsErrorObj ''wasm failed'') = Inr (JsErrorObj ''wasm failed'') \<and>
   state (snd (initDuckDB wasmFailsBrowser (mount []))) =
     \<lparr>db = None, loading = False, error = Some (JsErrorObj ''wasm failed'')\<rparr> \<and>
   fst (initBody nullProtoBrowser (trace (step nullProtoBrowser (mount []) Cleanup))) =
     Rejected JsNullProtoObject \<and>
   \<not> isMounted (step nullProtoBrowser (mount []) Cleanup) \<and>
   fst (initDuckDB nullProtoBrowser (step nullProtoBrowser (mount []) Cleanup)) = Resolved () \<and>
   state (snd (initDuckDB nullProtoBrowser (step nullProtoBrowser (mount []) Cleanup))) = initialState"
proof -
  have b1: "initBody noBundleBrowser [] =
      (Rejected (JsStr ''no bundle''), [(GetJsDelivrBundles, Returned), (SelectBundle, Threw)])"
    by (simp add: initBody_def proc_defs noBundleBrowser_def goodBrowser_def)
  have b2: "fst (initBody wasmFailsBrowser []) = Rejected (JsErrorObj ''wasm failed'')"
    by (simp add: initBody_def proc_defs wasmFailsBrowser_def goodBrowser_def)
  have b3: "initBody nullProtoBrowser [] =
      (Rejected JsNullProtoObject, [(GetJsDelivrBundles, Returned), (SelectBundle, Threw)])"
    by (simp add: initBody_def proc_defs nullProtoBrowser_def goodBrowser_def)
  have t1: "toError (JsStr ''no bundle'') = Inr (JsErrorObj ''no bundle'')"
    and t2: "toError (JsErrorObj ''wasm failed'') = Inr (JsErrorObj ''wasm failed'')"
    by (simp_all add: toError_def)
  show ?thesis
    using initDuckDB_catches [where b = noBundleBrowser and c = "mount []"
        and e = "JsStr ''no bundle''" and err = "JsErrorObj ''no bundle''"]
      initDuckDB_catches [where b = wasmFailsBrowser and c = "mount []"
        and e = "JsErrorObj ''wasm failed''" and err = "JsErrorObj ''wasm failed''"]
      initDuckDB_catches [where b = nullProtoBrowser
        and c = "step nullProtoBrowser (mount []) Cleanup" and e = JsNullProtoObject]
    by (simp add: b1 b2 b3 t1 t2 mount_def)
qed

text \<open>
  C3 as stated fails after the cleanup: \<open>selectBundle\<close> throws, and the state is
  still the loading state, with no error recorded.
\<close>

theorem failed_init_after_cleanup_counterexample:
  "fst (initBody noBundleBrowser (trace (step noBundleBrowser (mount []) Cleanup))) =
     Rejected (JsStr ''no bundle'') \<and>
   loading (state (snd (initDuckDB noBundleBrowser (step noBundleBrowser (mount []) Cleanup)))) \<and>
   error (state (snd (initDuckDB noBundleBrowser (step noBundleBrowser (mount []) Cleanup)))) = None"
  by (simp add: initDuckDB_def initBody_def proc_defs noBundleBrowser_def goodBrowser_def mount_def
      initialState_def)

text \<open>
  The mounted instance and a thrown value without conversion to a string: line 62 throws
  inside the \<open>catch\<close> block, so the promise of \<open>initDuckDB\<close> rejects with the
  \<open>TypeError\<close> of the conversion and the state stays the loading state.
\<close>

lemma initDuckDB_conversion_throws:
  "fst (initBody nullProtoBrowser (trace (mount []))) = Rejected JsNullProtoObject \<and>
   isMounted (mount []) \<and>
   fst (initDuckDB nullProtoBrowser (mount [])) =
     Rejected (JsTypeError ''Cannot convert object to primitive value'') \<and>
   state (snd (initDuckDB nullProtoBrowser (mount []))) = initialState"
  by (simp add: initDuckDB_def initBody_def proc_defs nullProtoBrowser_def goodBrowser_def
      mount_def toError_def)

section \<open>Unmount\<close>

text \<open>
  C9. Once \<open>isMounted\<close> is false, nothing the initializer produces reaches the state:
  \<open>initDuckDB\<close> leaves the state as it is whether its \<open>try\<close> block yields a handle
  or throws, and so does every later sequence of events. In particular the state after
  the cleanup and any events is the state before the cleanup.
\<close>

theorem unmounted_never_commits:
  assumes "\<not> isMounted c"
  shows "state (snd (initDuckDB b c)) = state c \<and>
         state (run b c es) = state c \<and>
         state (run b (step b c0 Cleanup) es) = state c0"
proof -
  have "\<not> isMounted (step b c0 Cleanup)" and "state (step b c0 Cleanup) = state c0"
    by simp_all
  then have "state (run b (step b c0 Cleanup) es) = state c0"
    using run_unmounted [of "step b c0 Cleanup" b es] by simp
  moreover have "state (run b c es) = state c"
    using assms run_unmounted by blast
  moreover have "state (snd (initDuckDB b c)) = state c"
    using assms by (rule initDuckDB_unmounted)
  ultimately show ?thesis by blast
qed

theorem unmounted_never_commits_witness:
  "\<not> isMounted (step goodBrowser (mount []) Cleanup) \<and>
   fst (initBody goodBrowser []) = Resolved 7 \<and>
   state (snd (initDuckDB goodBrowser (step goodBrowser (mount []) Cleanup))) = initialState \<and>
   state (run goodBrowser (step goodBrowser (mount []) Cleanup) [InitRuns]) = initialState \<and>
   state (run goodBrowser (step goodBrowser (mount []) Cleanup) [InitRuns, CallQuery goodEngine ''SELECT 1'']) =
     initialState"
  using unmounted_never_commits [where c = "step goodBrowser (mount []) Cleanup" and b = goodBrowser
      and es = "[InitRuns]" and c0 = "mount []"]
    unmounted_never_commits [where c = "step goodBrowser (mount []) Cleanup" and b = goodBrowser
      and es = "[InitRuns, CallQuery goodEngine ''SELECT 1'']" and c0 = "mount []"]
  by (simp add: mount_def initBody_def proc_defs goodBrowser_def)

section \<open>Resource registration\<close>




section \<open>Lifecycle state\<close>

text \<open>
  C5. As long as the initializer has not settled, because it has not run or because one
  of its awaited promises never settles, the state is the initial state
  \<open>{db: null, loading: true, error: null}\<close> and \<open>isReady\<close> is false. When
  \<open>isReady\<close> is true, the initializer has run, its \<open>try\<close> block has resolved, and
  the handle in the state is the one it produced. Once \<open>isReady\<close> is true after some
  events, it is true after any further events, and the state no longer changes: the state
  is written at most once, by the one run of the initializer.
\<close>

theorem isReady_monotonic:
  "(InitRuns \<notin> set es \<or> fst (initBody b []) = Pending \<longrightarrow>
      state (run b (mount tr) es) = initialState \<and>
      \<not> r_isReady (useDuckDB_result (run b (mount tr) es))) \<and>
   (r_isReady (useDuckDB_result (run b (mount tr) es)) \<longrightarrow>
      InitRuns \<in> set es \<and>
      (\<exists>h. fst (initBody b []) = Resolved h \<and> db (state (run b (mount tr) es)) = Some h)) \<and>
   (r_isReady (useDuckDB_result (run b (mount tr) es)) \<longrightarrow>
      r_isReady (useDuckDB_result (run b (mount tr) (es @ es'))) \<and>
      state (run b (mount tr) (es @ es')) = state (run b (mount tr) es))"
proof -
  let ?c = "run b (mount tr) es"
  obtain q where "shaped b tr es ?c q"
    using run_shaped by blast
  then have pend: "initPending ?c = (InitRuns \<notin> set es)"
    and init: "initPending ?c \<longrightarrow> state ?c = initialState"
    and hang: "state ?c \<noteq> initialState \<longrightarrow> fst (initBody b []) \<noteq> Pending"
    and res: "\<forall>h. db (state ?c) = Some h \<longrightarrow> fst (initBody b []) = Resolved h"
    by (simp_all add: shaped_def)
  have initial: "\<not> r_isReady (useDuckDB_result c')" if "state c' = initialState" for c'
    using that by (simp add: useDuckDB_result_def initialState_def)
  have first: "InitRuns \<notin> set es \<or> fst (initBody b []) = Pending \<longrightarrow>
      state ?c = initialState \<and> \<not> r_isReady (useDuckDB_result ?c)"
    using pend init hang initial [of ?c] by blast
  have origin: "r_isReady (useDuckDB_result ?c) \<longrightarrow>
      InitRuns \<in> set es \<and> (\<exists>h. fst (initBody b []) = Resolved h \<and> db (state ?c) = Some h)"
  proof
    assume ready: "r_isReady (useDuckDB_result ?c)"
    then obtain h where h: "db (state ?c) = Some h"
      by (auto simp: useDuckDB_result_def)
    from ready have "state ?c \<noteq> initialState"
      using initial [of ?c] by blast
    with pend init have "InitRuns \<in> set es" by blast
    with h res show "InitRuns \<in> set es \<and>
        (\<exists>h. fst (initBody b []) = Resolved h \<and> db (state ?c) = Some h)"
      by blast
  qed
  have later: "r_isReady (useDuckDB_result ?c) \<longrightarrow>
      r_isReady (useDuckDB_result (run b (mount tr) (es @ es'))) \<and>
      state (run b (mount tr) (es @ es')) = state ?c"
  proof
    assume ready: "r_isReady (useDuckDB_result ?c)"
    then have "state ?c \<noteq> initialState"
      using initial [of ?c] by blast
    with init have "\<not> initPending ?c" by blast
    then have "state (run b ?c es') = state ?c"
      using run_settled by blast
    with ready show "r_isReady (useDuckDB_result (run b (mount tr) (es @ es'))) \<and>
      state (run b (mount tr) (es @ es')) = state ?c"
      by (simp add: run_append useDuckDB_result_def)
  qed
  from first origin later show ?thesis by blast
qed

theorem isReady_monotonic_witness:
  "InitRuns \<notin> set [CallQuery goodEngine ''SELECT 1''] \<and>
   \<not> r_isReady (useDuckDB_result (run goodBrowser (mount []) [CallQuery goodEngine ''SELECT 1''])) \<and>
   fst (initBody hangingBrowser []) = Pending \<and>
   InitRuns \<in> set [InitRuns, CallQuery goodEngine ''SELECT 1''] \<and>
   state (run hangingBrowser (mount []) [InitRuns, CallQuery goodEngine ''SELECT 1'']) = initialState \<and>
   \<not> r_isReady (useDuckDB_result
     (run hangingBrowser (mount []) [InitRuns, CallQuery goodEngine ''SELECT 1''])) \<and>
   r_isReady (useDuckDB_result (run goodBrowser (mount []) [InitRuns])) \<and>
   fst (initBody goodBrowser []) = Resolved 7 \<and>
   db (state (run goodBrowser (mount []) [InitRuns])) = Some 7 \<and>
   r_isReady (useDuckDB_result
     (run goodBrowser (mount []) ([InitRuns] @ [CallQuery badSqlEngine ''SELEC 1'', InitRuns, Cleanup])))"
proof -
  have h1: "InitRuns \<notin> set [CallQuery goodEngine ''SELECT 1'']"
    and h3: "InitRuns \<in> set [InitRuns, CallQuery goodEngine ''SELECT 1'']"
    by simp_all
  have eq: "run goodBrowser (mount []) [InitRuns] = readyHook"
    by (simp add: readyHook_def)
  have h2: "r_isReady (useDuckDB_result (run goodBrowser (mount []) [InitRuns]))"
    and h5: "db (state (run goodBrowser (mount []) [InitRuns])) = Some 7"
    unfolding eq by (simp_all add: readyHook_eq useDuckDB_result_def)
  have h4: "fst (initBody hangingBrowser []) = Pending"
    by (simp add: initBody_def proc_defs hangingBrowser_def goodBrowser_def)
  have h6: "fst (initBody goodBrowser []) = Resolved 7"
    by (simp add: initBody_def proc_defs goodBrowser_def)
  show ?thesis
    using h1 h2 h3 h4 h5 h6
      isReady_monotonic [where b = goodBrowser and tr = "[]"
        and es = "[CallQuery goodEngine ''SELECT 1'']" and es' = "[]"]
      isReady_monotonic [where b = hangingBrowser and tr = "[]"
        and es = "[InitRuns, CallQuery goodEngine ''SELECT 1'']" and es' = "[]"]
      isReady_monotonic [where b = goodBrowser and tr = "[]" and es = "[InitRuns]"
        and es' = "[CallQuery badSqlEngine ''SELEC 1'', InitRuns, Cleanup]"]
    by blast
qed

text \<open>
  C10. Every state of a run is exactly one of the loading state, a ready state and an
  error state. So a handle that is not null comes with \<open>loading\<close> false and no
  error, the published \<open>isReady\<close> is true exactly when the handle is not null, and
  \<open>executeQuery\<close> rejects with "Database not initialized", making no call, exactly
  when \<open>isReady\<close> is false.
\<close>

theorem lifecycle_tri_state:
  "(isLoading (state (run b (mount tr) es)) \<and>
      \<not> isReadyState (state (run b (mount tr) es)) \<and>
      \<not> isErrorState (state (run b (mount tr) es)) \<or>
    isReadyState (state (run b (mount tr) es)) \<and>
      \<not> isLoading (state (run b (mount tr) es)) \<and>
      \<not> isErrorState (state (run b (mount tr) es)) \<or>
    isErrorState (state (run b (mount tr) es)) \<and>
      \<not> isLoading (state (run b (mount tr) es)) \<and>
      \<not> isReadyState (state (run b (mount tr) es))) \<and>
   (db (state (run b (mount tr) es)) \<noteq> None \<longrightarrow>
      \<not> loading (state (run b (mount tr) es)) \<and> error (state (run b (mount tr) es)) = None) \<and>
   r_isReady (useDuckDB_result (run b (mount tr) es)) = (db (state (run b (mount tr) es)) \<noteq> None) \<and>
   (executeQuery eng sql (run b (mount tr) es) =
      (Rejected (JsErrorObj ''Database not initialized''), run b (mount tr) es)) =
     (\<not> r_isReady (useDuckDB_result (run b (mount tr) es)))"
  using run_state [of b tr es] executeQuery_guard [of eng sql "run b (mount tr) es"]
  by (auto simp: isLoading_def isReadyState_def isErrorState_def initialState_def
      useDuckDB_result_def)

theorem lifecycle_tri_state_witness:
  "db (state (run goodBrowser (mount []) [InitRuns])) \<noteq> None \<and>
   \<not> loading (state (run goodBrowser (mount []) [InitRuns])) \<and>
   error (state (run goodBrowser (mount []) [InitRuns])) = None \<and>
   isReadyState (state (run goodBrowser (mount []) [InitRuns])) \<and>
   r_isReady (useDuckDB_result (run goodBrowser (mount []) [InitRuns]))"
proof -
  have eq: "run goodBrowser (mount []) [InitRuns] = readyHook"
    by (simp add: readyHook_def)
  have "db (state (run goodBrowser (mount []) [InitRuns])) \<noteq> None"
    unfolding eq by (simp add: readyHook_eq)
  then show ?thesis
    using lifecycle_tri_state [where b = goodBrowser and tr = "[]" and es = "[InitRuns]"]
    by (simp add: isReadyState_def)
qed

text \<open>
  C6, as the code has it. The returned \<open>isReady\<close> is
  \<open>state.db !== null && !state.loading\<close>, and the returned \<open>loading\<close> and
  \<open>error\<close> are the fields of the state. The hook returns two more members: the
  handle \<open>db\<close> itself and \<open>executeQuery\<close>, which leaves the state as it is.
\<close>

theorem hook_result_fields:
  "r_isReady (useDuckDB_result c) = (db (state c) \<noteq> None \<and> \<not> loading (state c)) \<and>
   r_loading (useDuckDB_result c) = loading (state c) \<and>
   r_error (useDuckDB_result c) = error (state c) \<and>
   r_db (useDuckDB_result c) = db (state c) \<and>
   r_executeQuery (useDuckDB_result c) eng sql = executeQuery eng sql c \<and>
   state (snd (r_executeQuery (useDuckDB_result c) eng sql)) = state c"
  by (simp add: useDuckDB_result_def executeQuery_frame)

text \<open>
  C6 as stated fails: the three signals do not determine what the hook returns. Two ready
  instances publish the same \<open>loading\<close>, \<open>error\<close> and \<open>isReady\<close>, and each
  also publishes its own handle.
\<close>

theorem hook_result_counterexample:
  "r_loading (useDuckDB_result readyHook) =
     r_loading (useDuckDB_result (run otherBrowser (mount []) [InitRuns])) \<and>
   r_error (useDuckDB_result readyHook) =
     r_error (useDuckDB_result (run otherBrowser (mount []) [InitRuns])) \<and>
   r_isReady (useDuckDB_result readyHook) =
     r_isReady (useDuckDB_result (run otherBrowser (mount []) [InitRuns])) \<and>
   r_db (useDuckDB_result readyHook) = Some 7 \<and>
   r_db (useDuckDB_result (run otherBrowser (mount []) [InitRuns])) = Some 8 \<and>
   useDuckDB_result readyHook \<noteq> useDuckDB_result (run otherBrowser (mount []) [InitRuns])"
proof -
  have "r_db (useDuckDB_result readyHook) = Some 7"
    by (simp add: useDuckDB_result_def readyHook_eq)
  moreover have "r_db (useDuckDB_result (run otherBrowser (mount []) [InitRuns])) = Some 8"
    by (simp add: useDuckDB_result_def otherHook_state)
  ultimately have "useDuckDB_result readyHook \<noteq> useDuckDB_result (run otherBrowser (mount []) [InitRuns])"
    by auto
  then show ?thesis
    by (simp add: useDuckDB_result_def otherHook_state readyHook_eq)
qed

section \<open>Workers\<close>

text \<open>
  C8, as the code has it. The cleanup makes no call at all, and no event of a run
  terminates a worker. A mounted instance allocates one worker when its initializer runs
  and gets as far as \<open>new Worker\<close> returning, and none otherwise; the worker stays.
\<close>

theorem workers_never_terminated:
  "trace (step b c Cleanup) = trace c \<and>
   workers_terminated (trace (run b (mount tr) es)) = workers_terminated tr \<and>
   workers_created (trace (run b (mount tr) es)) =
     workers_created tr + (if InitRuns \<in> set es \<and> allocatesWorker b then 1 else 0)"
proof -
  obtain q where sh: "shaped b tr es (run b (mount tr) es) q"
    using run_shaped by blast
  then have tr: "trace (run b (mount tr) es) =
      tr @ (if InitRuns \<in> set es then initTrace b else []) @ q"
    and q: "\<forall>x\<in>set q. usesEngine (fst x)"
    by (simp_all add: shaped_def)
  have "workers_created q = 0" and "workers_terminated q = 0"
    using q by (rule engine_calls_only)+
  then show ?thesis
    using tr by (simp add: initTrace_workers initTrace_no_terminate)
qed

text \<open>
  C8 as stated fails: after a mount, a successful initialization and the unmount, one
  worker is alive; after a second mount on the same page, two.
\<close>

theorem workers_accumulate_counterexample:
  "live_workers (trace (run goodBrowser (mount []) [InitRuns, Cleanup])) = 1 \<and>
   live_workers
     (trace (run goodBrowser (mount (trace (run goodBrowser (mount []) [InitRuns, Cleanup])))
        [InitRuns, Cleanup])) = 2"
  by (simp add: run_def mount_def initialState_def initDuckDB_def initBody_def proc_defs
      goodBrowser_def live_workers_def workers_created_def workers_terminated_def)

end
